theory Spec2Isabelle
  imports Complex_Main
begin

section \<open>JavaScript values, strings and numbers\<close>

text \<open>
  Strings are character lists. \<open>String.prototype.toUpperCase\<close> is modelled on the ASCII
  letters; every other character is left as it is.
\<close>

definition toUpperChar :: "char \<Rightarrow> char" where
  "toUpperChar c =
     (case map_of (zip ''abcdefghijklmnopqrstuvwxyz'' ''ABCDEFGHIJKLMNOPQRSTUVWXYZ'') c of
        Some u \<Rightarrow> u
      | None \<Rightarrow> c)"

definition toUpperCase :: "string \<Rightarrow> string" where
  "toUpperCase s = map toUpperChar s"

text \<open>Decimal notation of an integer, as a template literal prints a whole number.\<close>

fun show_nat :: "nat \<Rightarrow> string" where
  "show_nat n =
     (if n < 10 then [''0123456789'' ! n]
      else show_nat (n div 10) @ [''0123456789'' ! (n mod 10)])"

declare show_nat.simps [simp del]

definition show_int :: "int \<Rightarrow> string" where
  "show_int i = (if i < 0 then ''-'' @ show_nat (nat (- i)) else show_nat (nat i))"

text \<open>
  A field of type \<open>string\<close> that may be absent at run time is a \<open>string option\<close>;
  \<open>!field\<close> holds when it is absent or the empty string.
\<close>

definition falsy :: "string option \<Rightarrow> bool" where
  "falsy v = (case v of None \<Rightarrow> True | Some s \<Rightarrow> s = [])"

text \<open>
  Values of type \<open>any\<close> or \<open>unknown\<close>: the JSON values, plus objects created without a
  prototype (\<open>Object.create(null)\<close>), which have neither \<open>toString\<close> nor \<open>valueOf\<close>.
  An object is the list of its own properties; the first binding of a key counts.
  Numbers in such values are whole numbers.
\<close>

datatype js_value =
    JUndefined
  | JNull
  | JBool bool
  | JNum int
  | JStr string
  | JArr "js_value list"
  | JObj "(string \<times> js_value) list"
  | JBare "(string \<times> js_value) list"

fun truthy :: "js_value \<Rightarrow> bool" where
  "truthy JUndefined = False"
| "truthy JNull = False"
| "truthy (JBool b) = b"
| "truthy (JNum n) = (n \<noteq> 0)"
| "truthy (JStr s) = (s \<noteq> [])"
| "truthy (JArr xs) = True"
| "truthy (JObj kvs) = True"
| "truthy (JBare kvs) = True"

text \<open>\<open>a || b\<close> on values.\<close>

definition js_or :: "js_value \<Rightarrow> js_value \<Rightarrow> js_value" where
  "js_or a b = (if truthy a then a else b)"

text \<open>
  \<open>Array.prototype.join\<close> with the separator \<open>,\<close>, on the elements' strings;
  \<open>None\<close> is an element whose conversion threw.
\<close>

fun join_strings :: "string option list \<Rightarrow> string option" where
  "join_strings [] = Some []"
| "join_strings [x] = x"
| "join_strings (x # y # ys) =
     (case x of
        None \<Rightarrow> None
      | Some s \<Rightarrow> (case join_strings (y # ys) of
                    None \<Rightarrow> None
                  | Some r \<Rightarrow> Some (s @ '','' @ r)))"

text \<open>
  The abstract operation ToString, used by \<open>String(v)\<close>, by template literals and by the
  constructor of \<open>Error\<close> on its message. \<open>None\<close> stands for the TypeError that the
  conversion of an object without \<open>toString\<close> and \<open>valueOf\<close> throws.
\<close>

fun ToString :: "js_value \<Rightarrow> string option" where
  "ToString JUndefined = Some ''undefined''"
| "ToString JNull = Some ''null''"
| "ToString (JBool b) = Some (if b then ''true'' else ''false'')"
| "ToString (JNum n) = Some (show_int n)"
| "ToString (JStr s) = Some s"
| "ToString (JArr xs) =
     join_strings (map (\<lambda>x. if x = JUndefined \<or> x = JNull then Some [] else ToString x) xs)"
| "ToString (JObj kvs) = Some ''[object Object]''"
| "ToString (JBare kvs) = None"

text \<open>
  An instance of \<open>Error\<close> that is not an \<open>ApiError\<close>: the errors of the runtime and of
  the HTTP library. The stack is what the engine recorded, if anything.
\<close>

record js_error =
  err_name :: string
  err_message :: string
  err_stack :: "string option"

section \<open>Error taxonomy (error.utils.ts, api.types.ts)\<close>

datatype ErrorCode =
    VALIDATION_ERROR
  | NOT_FOUND
  | UNAUTHORIZED
  | FORBIDDEN
  | INTERNAL_SERVER_ERROR
  | SERVICE_UNAVAILABLE
  | EXTERNAL_API_ERROR

text \<open>The class whose prototype the constructor installs on the instance.\<close>

datatype error_class =
    ApiErrorClass
  | ValidationErrorClass
  | NotFoundErrorClass
  | UnauthorizedErrorClass
  | ForbiddenErrorClass
  | InternalServerErrorClass
  | ServiceUnavailableErrorClass
  | ExternalApiErrorClass

type_synonym details = "(string \<times> js_value) list"

record ApiError =
  error_class :: error_class
  e_message :: string
  e_status :: int
  e_error_code :: ErrorCode
  e_details :: "details option"

definition ValidationError :: "string \<Rightarrow> details option \<Rightarrow> ApiError" where
  "ValidationError msg d =
     \<lparr>error_class = ValidationErrorClass, e_message = msg, e_status = 400,
      e_error_code = VALIDATION_ERROR, e_details = d\<rparr>"

definition NotFoundError :: "string \<Rightarrow> details option \<Rightarrow> ApiError" where
  "NotFoundError msg d =
     \<lparr>error_class = NotFoundErrorClass, e_message = msg, e_status = 404,
      e_error_code = NOT_FOUND, e_details = d\<rparr>"

definition UnauthorizedError :: "string \<Rightarrow> details option \<Rightarrow> ApiError" where
  "UnauthorizedError msg d =
     \<lparr>error_class = UnauthorizedErrorClass, e_message = msg, e_status = 401,
      e_error_code = UNAUTHORIZED, e_details = d\<rparr>"

definition ForbiddenError :: "string \<Rightarrow> details option \<Rightarrow> ApiError" where
  "ForbiddenError msg d =
     \<lparr>error_class = ForbiddenErrorClass, e_message = msg, e_status = 403,
      e_error_code = FORBIDDEN, e_details = d\<rparr>"

definition InternalServerError :: "string \<Rightarrow> details option \<Rightarrow> ApiError" where
  "InternalServerError msg d =
     \<lparr>error_class = InternalServerErrorClass, e_message = msg, e_status = 500,
      e_error_code = INTERNAL_SERVER_ERROR, e_details = d\<rparr>"

definition ServiceUnavailableError :: "string \<Rightarrow> details option \<Rightarrow> ApiError" where
  "ServiceUnavailableError msg d =
     \<lparr>error_class = ServiceUnavailableErrorClass, e_message = msg, e_status = 503,
      e_error_code = SERVICE_UNAVAILABLE, e_details = d\<rparr>"

definition ExternalApiError :: "string \<Rightarrow> details option \<Rightarrow> ApiError" where
  "ExternalApiError msg d =
     \<lparr>error_class = ExternalApiErrorClass, e_message = msg, e_status = 502,
      e_error_code = EXTERNAL_API_ERROR, e_details = d\<rparr>"

text \<open>
  Whatever a \<open>throw\<close> can carry: a taxonomy error, another \<open>Error\<close>, or any other value.
\<close>

datatype thrown =
    Api ApiError
  | Native js_error
  | Value js_value

text \<open>
  The TypeError the runtime raises by itself. The stack is the header line the engine
  prints; the frame lines are left out.
\<close>

definition TypeError :: "string \<Rightarrow> thrown" where
  "TypeError msg =
     Native \<lparr>err_name = ''TypeError'', err_message = msg,
             err_stack = Some (''TypeError: '' @ msg)\<rparr>"

text \<open>
  Reading the property \<open>message\<close> of a value: a TypeError on \<open>undefined\<close> and \<open>null\<close>
  (with the engine's message, up to the name of the property read), the own property of
  an object, \<open>undefined\<close> on everything else.
\<close>

fun get_message :: "js_value \<Rightarrow> thrown + js_value" where
  "get_message JUndefined = Inl (TypeError ''Cannot read properties of undefined'')"
| "get_message JNull = Inl (TypeError ''Cannot read properties of null'')"
| "get_message (JObj kvs) =
     Inr (case map_of kvs ''message'' of Some v \<Rightarrow> v | None \<Rightarrow> JUndefined)"
| "get_message (JBare kvs) =
     Inr (case map_of kvs ''message'' of Some v \<Rightarrow> v | None \<Rightarrow> JUndefined)"
| "get_message v = Inr JUndefined"

text \<open>
  \<open>new C(message, details)\<close> for a taxonomy class \<open>C\<close>, with a message of type \<open>any\<close>:
  the constructor of \<open>Error\<close> converts the message with ToString.
\<close>

definition throw_new :: "(string \<Rightarrow> details option \<Rightarrow> ApiError) \<Rightarrow> js_value \<Rightarrow> details \<Rightarrow> thrown" where
  "throw_new C msg d =
     (case ToString msg of
        None \<Rightarrow> TypeError ''Cannot convert object to primitive value''
      | Some s \<Rightarrow> Api (C s (Some d)))"

section \<open>Response envelopes (api.types.ts, response.utils.ts)\<close>

text \<open>
  A timestamp is the ISO-8601 string that \<open>Date.prototype.toISOString\<close> prints, kept as
  the instant it denotes in milliseconds since the epoch: the string is printed to the
  millisecond, \<open>new Date(s).getTime()\<close> reads the instant back, and the string is never
  empty.
\<close>

datatype iso_string = ISOString int

definition toISOString :: "int \<Rightarrow> iso_string" where
  "toISOString t = ISOString t"

fun getTime :: "iso_string \<Rightarrow> int" where
  "getTime (ISOString t) = t"

datatype completeness = complete | partial | incomplete

record ResponseMetadata =
  data_completeness :: completeness
  last_updated :: iso_string
  source :: string
  confidence_score :: "rat option"

text \<open>\<open>Partial<ResponseMetadata>\<close>: every field may be absent.\<close>

record PartialMetadata =
  p_data_completeness :: "completeness option"
  p_last_updated :: "iso_string option"
  p_source :: "string option"
  p_confidence_score :: "rat option"

definition no_metadata :: PartialMetadata where
  "no_metadata =
     \<lparr>p_data_completeness = None, p_last_updated = None, p_source = None,
      p_confidence_score = None\<rparr>"

record 'a ApiResponse =
  status :: int
  data :: 'a
  message :: "string option"
  metadata :: ResponseMetadata

record ApiErrorResponse =
  r_status :: int
  r_data :: js_value
  r_message :: string
  r_error_code :: "ErrorCode option"
  r_details :: "details option"
  r_metadata :: "ResponseMetadata option"

text \<open>The \<open>options\<close> argument of the builders; \<open>{}\<close> is \<open>no_options\<close>.\<close>

record response_options =
  o_status :: "int option"
  o_message :: "string option"
  o_metadata :: "PartialMetadata option"

definition no_options :: response_options where
  "no_options = \<lparr>o_status = None, o_message = None, o_metadata = None\<rparr>"

text \<open>
  \<open>createSuccessResponse\<close>, with the clock reading \<open>now\<close> of \<open>new Date()\<close>. The spread
  of \<open>defaultMetadata\<close> gives \<open>complete\<close> and \<open>API\<close> where the caller's metadata has
  nothing; its own \<open>last_updated\<close> is always overwritten by the last property.
\<close>

definition createSuccessResponse :: "int \<Rightarrow> 'a \<Rightarrow> response_options \<Rightarrow> 'a ApiResponse" where
  "createSuccessResponse now d options =
     (let status = (case o_status options of None \<Rightarrow> 200 | Some s \<Rightarrow> s);
          message = o_message options;
          metadata = (case o_metadata options of None \<Rightarrow> no_metadata | Some m \<Rightarrow> m)
      in \<lparr>status = status,
          data = d,
          message = (if falsy message then None else message),
          metadata =
            \<lparr>data_completeness =
               (case p_data_completeness metadata of None \<Rightarrow> complete | Some c \<Rightarrow> c),
             last_updated =
               (case p_last_updated metadata of None \<Rightarrow> toISOString now | Some t \<Rightarrow> t),
             source = (case p_source metadata of None \<Rightarrow> ''API'' | Some s \<Rightarrow> s),
             confidence_score = p_confidence_score metadata\<rparr>\<rparr>)"

definition createPartialResponse :: "int \<Rightarrow> 'a \<Rightarrow> response_options \<Rightarrow> 'a ApiResponse" where
  "createPartialResponse now d options =
     createSuccessResponse now d
       (options\<lparr>o_metadata :=
          Some ((case o_metadata options of None \<Rightarrow> no_metadata | Some m \<Rightarrow> m)
                  \<lparr>p_data_completeness := Some partial\<rparr>)\<rparr>)"

datatype cached_timestamp = AsString iso_string | AsDate int

definition createCachedResponse ::
  "int \<Rightarrow> 'a \<Rightarrow> cached_timestamp \<Rightarrow> response_options \<Rightarrow> 'a ApiResponse" where
  "createCachedResponse now d cachedTimestamp options =
     (let timestamp = (case cachedTimestamp of AsString s \<Rightarrow> s | AsDate t \<Rightarrow> toISOString t)
      in createSuccessResponse now d
           (options\<lparr>o_metadata :=
              Some ((case o_metadata options of None \<Rightarrow> no_metadata | Some m \<Rightarrow> m)
                      \<lparr>p_source := Some ''Cache'', p_last_updated := Some timestamp\<rparr>)\<rparr>))"

text \<open>\<open>ApiError.toResponse\<close>, \<open>isApiError\<close> and \<open>handleError\<close>.\<close>

definition toResponse :: "int \<Rightarrow> ApiError \<Rightarrow> ApiErrorResponse" where
  "toResponse now e =
     \<lparr>r_status = e_status e,
      r_data = JNull,
      r_message = e_message e,
      r_error_code = Some (e_error_code e),
      r_details = e_details e,
      r_metadata =
        Some \<lparr>data_completeness = incomplete, last_updated = toISOString now,
              source = ''Error'', confidence_score = None\<rparr>\<rparr>"

fun isApiError :: "thrown \<Rightarrow> bool" where
  "isApiError (Api e) = True"
| "isApiError (Native e) = False"
| "isApiError (Value v) = False"

text \<open>
  \<open>handleError\<close> returns the envelope, or \<open>Inl\<close> of what it throws itself. The details
  of the internal error are built before the constructor runs: the stack of an \<open>Error\<close>
  (\<open>undefined\<close> when the engine recorded none), \<open>String(error)\<close> for any other value.
\<close>

fun handleError :: "int \<Rightarrow> thrown \<Rightarrow> thrown + ApiErrorResponse" where
  "handleError now (Api e) = Inr (toResponse now e)"
| "handleError now (Native e) =
     Inr (toResponse now
       (InternalServerError (err_message e)
          (Some [(''original_error'',
                  (case err_stack e of None \<Rightarrow> JUndefined | Some s \<Rightarrow> JStr s))])))"
| "handleError now (Value v) =
     (case ToString v of
        None \<Rightarrow> Inl (TypeError ''Cannot convert object to primitive value'')
      | Some s \<Rightarrow>
          Inr (toResponse now
            (InternalServerError ''An unexpected error occurred''
               (Some [(''original_error'', JStr s)]))))"

section \<open>Requests and payloads (market-intelligence.types.ts)\<close>

text \<open>
  A request object as it arrives: the discriminant and every field of the five variants,
  each present or absent. The discriminant is a string; its five known values are the
  members of \<open>MarketIntelligenceRequestType\<close>.
\<close>

record MarketIntelligenceParams =
  type :: "string option"
  hs_code :: "string option"
  market :: "string option"
  year :: "int option"
  origin :: "string option"
  destination :: "string option"
  product_category :: "string option"
  industry :: "string option"

definition TRADE_FLOW :: string where "TRADE_FLOW = ''trade_flow''"
definition TARIFF :: string where "TARIFF = ''tariff''"
definition MARKET_SIZE :: string where "MARKET_SIZE = ''market_size''"
definition BUYERS :: string where "BUYERS = ''buyers''"
definition COMPETITIVE_LANDSCAPE :: string where
  "COMPETITIVE_LANDSCAPE = ''competitive_landscape''"

definition isTradeFlowParams :: "MarketIntelligenceParams \<Rightarrow> bool" where
  "isTradeFlowParams params = (type params = Some TRADE_FLOW)"

definition isTariffParams :: "MarketIntelligenceParams \<Rightarrow> bool" where
  "isTariffParams params = (type params = Some TARIFF)"

definition isMarketSizeParams :: "MarketIntelligenceParams \<Rightarrow> bool" where
  "isMarketSizeParams params = (type params = Some MARKET_SIZE)"

definition isBuyersParams :: "MarketIntelligenceParams \<Rightarrow> bool" where
  "isBuyersParams params = (type params = Some BUYERS)"

definition isCompetitiveLandscapeParams :: "MarketIntelligenceParams \<Rightarrow> bool" where
  "isCompetitiveLandscapeParams params = (type params = Some COMPETITIVE_LANDSCAPE)"

text \<open>The request as a value, for the \<open>{ params }\<close> that the errors carry as details.\<close>

definition str_prop :: "string \<Rightarrow> string option \<Rightarrow> (string \<times> js_value) list" where
  "str_prop k v = (case v of None \<Rightarrow> [] | Some s \<Rightarrow> [(k, JStr s)])"

definition num_prop :: "string \<Rightarrow> int option \<Rightarrow> (string \<times> js_value) list" where
  "num_prop k v = (case v of None \<Rightarrow> [] | Some n \<Rightarrow> [(k, JNum n)])"

definition params_details :: "MarketIntelligenceParams \<Rightarrow> details option" where
  "params_details params =
     Some [(''params'',
       JObj (str_prop ''type'' (type params) @ str_prop ''hs_code'' (hs_code params)
           @ str_prop ''market'' (market params) @ num_prop ''year'' (year params)
           @ str_prop ''origin'' (origin params) @ str_prop ''destination'' (destination params)
           @ str_prop ''product_category'' (product_category params)
           @ str_prop ''industry'' (industry params)))]"

record exporter =
  country :: string
  market_share :: rat

record TradeFlowData =
  import_value_usd :: rat
  export_value_usd :: rat
  growth_rate :: rat
  top_exporters :: "exporter list"
  import_volume :: "rat option"

record trade_agreement =
  agreement_name :: string
  benefits :: string

record TariffData =
  tariff_rate :: rat
  quota_restrictions :: "string option"
  trade_agreements :: "trade_agreement list"

record MarketSizeData =
  market_value_usd :: string
  market_growth_rate :: string
  popular_categories :: "string list"

record buyer =
  buyer_name :: string
  contact :: string
  buyer_size :: string
  interests :: "string list"

record BuyersData =
  buyers :: "buyer list"

record competitor =
  competitor_name :: string
  competitor_market_share :: rat
  competitor_origin :: string
  strengths :: "string list"

record price_points =
  low :: string
  average :: string
  premium :: string

record CompetitiveLandscapeData =
  competitors :: "competitor list"
  price_points :: price_points

datatype MarketIntelligenceData =
    TradeFlow TradeFlowData
  | Tariff TariffData
  | MarketSize MarketSizeData
  | Buyers BuyersData
  | CompetitiveLandscape CompetitiveLandscapeData

section \<open>Market Intelligence Handler (handler.ts)\<close>

definition metadata_option :: "string \<Rightarrow> rat \<Rightarrow> response_options" where
  "metadata_option src score =
     no_options\<lparr>o_metadata :=
       Some (no_metadata\<lparr>p_source := Some src, p_confidence_score := Some score\<rparr>)\<rparr>"

definition handleTradeFlow ::
  "int \<Rightarrow> MarketIntelligenceParams \<Rightarrow> thrown + MarketIntelligenceData ApiResponse" where
  "handleTradeFlow now params =
     (if falsy (hs_code params) then
        Inl (Api (ValidationError ''HS code is required for trade flow requests''
                    (params_details params)))
      else if falsy (market params) then
        Inl (Api (ValidationError ''Market is required for trade flow requests''
                    (params_details params)))
      else
        Inr (createSuccessResponse now
          (TradeFlow
             \<lparr>import_value_usd = 5000000000,
              export_value_usd = 3000000000,
              growth_rate = 12.5,
              top_exporters =
                [\<lparr>country = ''China'', market_share = 35\<rparr>,
                 \<lparr>country = ''Germany'', market_share = 15\<rparr>,
                 \<lparr>country = ''South Africa'', market_share = 8\<rparr>],
              import_volume = Some 250000\<rparr>)
          (metadata_option ''WITS API'' 0.95)))"

definition handleTariff ::
  "int \<Rightarrow> MarketIntelligenceParams \<Rightarrow> thrown + MarketIntelligenceData ApiResponse" where
  "handleTariff now params =
     (if falsy (hs_code params) then
        Inl (Api (ValidationError ''HS code is required for tariff requests''
                    (params_details params)))
      else if falsy (origin params) then
        Inl (Api (ValidationError ''Origin country is required for tariff requests''
                    (params_details params)))
      else if falsy (destination params) then
        Inl (Api (ValidationError ''Destination country is required for tariff requests''
                    (params_details params)))
      else
        Inr (createSuccessResponse now
          (Tariff
             \<lparr>tariff_rate = 5.2,
              quota_restrictions = None,
              trade_agreements =
                [\<lparr>agreement_name = ''AfCFTA'',
                  benefits = ''Reduced tariff rate of 0% for qualifying goods''\<rparr>]\<rparr>)
          (metadata_option ''WITS API'' 0.98)))"

definition handleMarketSize ::
  "int \<Rightarrow> MarketIntelligenceParams \<Rightarrow> thrown + MarketIntelligenceData ApiResponse" where
  "handleMarketSize now params =
     (if falsy (product_category params) then
        Inl (Api (ValidationError ''Product category is required for market size requests''
                    (params_details params)))
      else if falsy (market params) then
        Inl (Api (ValidationError ''Market is required for market size requests''
                    (params_details params)))
      else
        Inr (createSuccessResponse now
          (MarketSize
             \<lparr>market_value_usd = ''8.5 Billion'',
              market_growth_rate = ''5%'',
              popular_categories = [''canned vegetables'', ''plant-based meals'']\<rparr>)
          (metadata_option ''ITC TradeMap'' 0.93)))"

definition handleBuyers ::
  "int \<Rightarrow> MarketIntelligenceParams \<Rightarrow> thrown + MarketIntelligenceData ApiResponse" where
  "handleBuyers now params =
     (if falsy (industry params) then
        Inl (Api (ValidationError ''Industry is required for buyers requests''
                    (params_details params)))
      else if falsy (market params) then
        Inl (Api (ValidationError ''Market is required for buyers requests''
                    (params_details params)))
      else
        Inr (createSuccessResponse now
          (Buyers
             \<lparr>buyers =
                [\<lparr>buyer_name = ''Almarai'', contact = ''buyer@almarai.com'',
                  buyer_size = ''Large'',
                  interests = [''dairy'', ''beverages'']\<rparr>,
                 \<lparr>buyer_name = ''Spinneys'', contact = ''procurement@spinneys.com'',
                  buyer_size = ''Medium'', interests = [''organic'', ''health foods'']\<rparr>]\<rparr>)
          (metadata_option ''Internal Trade DB'' 0.87)))"

definition handleCompetitiveLandscape ::
  "int \<Rightarrow> MarketIntelligenceParams \<Rightarrow> thrown + MarketIntelligenceData ApiResponse" where
  "handleCompetitiveLandscape now params =
     (if falsy (product_category params) then
        Inl (Api (ValidationError
                    ''Product category is required for competitive landscape requests''
                    (params_details params)))
      else if falsy (market params) then
        Inl (Api (ValidationError ''Market is required for competitive landscape requests''
                    (params_details params)))
      else
        Inr (createSuccessResponse now
          (CompetitiveLandscape
             \<lparr>competitors =
                [\<lparr>competitor_name = ''Global Foods Inc.'', competitor_market_share = 32,
                  competitor_origin = ''USA'',
                  strengths = [''brand recognition'', ''distribution network'']\<rparr>,
                 \<lparr>competitor_name = ''EuroFoods'', competitor_market_share = 18,
                  competitor_origin = ''Germany'',
                  strengths = [''product quality'', ''organic certification'']\<rparr>],
              price_points =
                \<lparr>low = ''$2.50 - $4.00'', average = ''$4.00 - $6.50'',
                 premium = ''$6.50 - $12.00''\<rparr>\<rparr>)
          (metadata_option ''Market Research DB'' 0.92)))"

text \<open>
  \<open>handle\<close>: the check of the discriminant, then the chain of type guards in the order
  of the source. The template literal of the last error prints the discriminant, which
  is a non-empty string there.
\<close>

definition handle ::
  "int \<Rightarrow> MarketIntelligenceParams \<Rightarrow> thrown + MarketIntelligenceData ApiResponse" where
  "handle now params =
     (if falsy (type params) then
        Inl (Api (ValidationError ''Request type is required'' (params_details params)))
      else if isTradeFlowParams params then handleTradeFlow now params
      else if isTariffParams params then handleTariff now params
      else if isMarketSizeParams params then handleMarketSize now params
      else if isBuyersParams params then handleBuyers now params
      else if isCompetitiveLandscapeParams params then handleCompetitiveLandscape now params
      else
        Inl (Api (ValidationError
                    (''Unsupported request type: '' @ (case type params of None \<Rightarrow> [] | Some t \<Rightarrow> t))
                    (params_details params))))"

section \<open>WITS client (wits-client.ts)\<close>

record WitsTradeFlowParams =
  wp_reporter :: "string option"
  wp_partner :: "string option"
  wp_productCode :: "string option"
  wp_year :: "int option"

datatype trade_flow_direction = Export | Import

record WitsTradeFlowResponse =
  reporter :: string
  partner :: string
  productCode :: string
  wits_year :: int
  tradeValue :: rat
  netWeight :: "rat option"
  quantity :: "rat option"
  tradeFlow :: trade_flow_direction

record quotas =
  isApplied :: bool
  quota_details :: "string option"

record wits_trade_agreement =
  wits_agreement_name :: string
  rate :: rat

record WitsTariffResponse =
  tariff_reporter :: string
  tariff_partner :: string
  tariff_productCode :: string
  tariff_year :: int
  simpleAverage :: rat
  weightedAverage :: rat
  quotas :: quotas
  tradeAgreements :: "wits_trade_agreement list"

definition countryCodeMap :: "(string \<times> string) list" where
  "countryCodeMap =
     [(''UAE'', ''ARE''),
      (''USA'', ''USA''),
      (''UK'', ''GBR''),
      (''WORLD'', ''WLD''),
      (''WLD'', ''WLD'')]"

text \<open>
  What the HTTP library hands to the rejection handler: an error with a message and,
  when the upstream answered, the response's status and parsed body.
\<close>

record AxiosResponse =
  response_status :: int
  response_data :: js_value

record AxiosError =
  axios_message :: string
  response :: "AxiosResponse option"

text \<open>
  The rejection handler installed by \<open>setupResponseInterceptors\<close>. It never returns:
  the result is what it throws, which is a taxonomy error where the handler reaches one
  of its \<open>throw\<close> statements and the runtime's TypeError where reading \<open>data.message\<close>
  or converting the message fails first.
\<close>

definition responseInterceptor :: "AxiosError \<Rightarrow> thrown" where
  "responseInterceptor error =
     (case response error of
        None \<Rightarrow>
          Api (ExternalApiError ''WITS API is unreachable''
                 (Some [(''originalError'', JStr (axios_message error))]))
      | Some resp \<Rightarrow>
          (let status = response_status resp; data = response_data resp in
           if status = 400 then
             (case get_message data of
                Inl t \<Rightarrow> t
              | Inr m \<Rightarrow>
                  throw_new ValidationError (js_or m (JStr ''Invalid request to WITS API''))
                    [(''originalError'', data)])
           else if status = 404 then
             Api (ValidationError ''The requested resource was not found in WITS API''
                    (Some [(''originalError'', data)]))
           else if status \<ge> 500 then
             (case get_message data of
                Inl t \<Rightarrow> t
              | Inr m \<Rightarrow>
                  (case ToString (js_or m (JNum status)) of
                     None \<Rightarrow> TypeError ''Cannot convert object to primitive value''
                   | Some s \<Rightarrow>
                       Api (ExternalApiError (''WITS API server error: '' @ s)
                              (Some [(''originalError'', data)]))))
           else
             (case get_message data of
                Inl t \<Rightarrow> t
              | Inr m \<Rightarrow>
                  (case ToString (js_or m (JStr (axios_message error))) of
                     None \<Rightarrow> TypeError ''Cannot convert object to primitive value''
                   | Some s \<Rightarrow>
                       Api (ExternalApiError (''WITS API error: '' @ s)
                              (Some [(''originalError'', js_or data (JStr (axios_message error))),
                                     (''status'', JNum status)]))))))"

definition getCountryCode :: "string option \<Rightarrow> string" where
  "getCountryCode token =
     (case token of
        None \<Rightarrow> ''WLD''
      | Some m \<Rightarrow>
          if m = [] then ''WLD''
          else (case map_of countryCodeMap (toUpperCase m) of
                  Some code \<Rightarrow> if code \<noteq> [] then code else m
                | None \<Rightarrow> m))"

text \<open>
  One outbound call: the query sent, and the upstream's outcome for it. \<open>client.get\<close>
  appends the query to the log of calls issued and passes a rejection through the
  interceptor.
\<close>

record http_request =
  q_path :: string
  q_reporter :: string
  q_partner :: string
  q_productCode :: string
  q_year :: int
  q_format :: string

datatype 'a axios_result = Resolved 'a | Rejected AxiosError

definition client_get ::
  "(http_request \<Rightarrow> 'a axios_result) \<Rightarrow> http_request \<Rightarrow> http_request list
     \<Rightarrow> (thrown + 'a) \<times> http_request list" where
  "client_get upstream req issued =
     (case upstream req of
        Resolved d \<Rightarrow> (Inr d, issued @ [req])
      | Rejected e \<Rightarrow> (Inl (responseInterceptor e), issued @ [req]))"

text \<open>
  \<open>WitsClient.getTradeFlow\<close> and \<open>getTariff\<close>; \<open>this_year\<close> is the reading of
  \<open>new Date().getFullYear()\<close>.
\<close>

definition WitsClient_getTradeFlow ::
  "(http_request \<Rightarrow> WitsTradeFlowResponse axios_result) \<Rightarrow> int \<Rightarrow> WitsTradeFlowParams
     \<Rightarrow> http_request list \<Rightarrow> (thrown + WitsTradeFlowResponse) \<times> http_request list" where
  "WitsClient_getTradeFlow upstream this_year params issued =
     (let reporter = getCountryCode (wp_reporter params);
          partner = getCountryCode (wp_partner params)
      in case wp_productCode params of
           None \<Rightarrow>
             (Inl (Api (ValidationError ''Product code is required for trade flow requests'' None)),
              issued)
         | Some code \<Rightarrow>
             if code = [] then
               (Inl (Api (ValidationError ''Product code is required for trade flow requests'' None)),
                issued)
             else
               client_get upstream
                 \<lparr>q_path = ''/trade/flow'', q_reporter = reporter, q_partner = partner,
                  q_productCode = code,
                  q_year = (case wp_year params of
                              None \<Rightarrow> this_year - 1
                            | Some y \<Rightarrow> if y = 0 then this_year - 1 else y),
                  q_format = ''json''\<rparr>
                 issued)"

definition WitsClient_getTariff ::
  "(http_request \<Rightarrow> WitsTariffResponse axios_result) \<Rightarrow> int \<Rightarrow> WitsTradeFlowParams
     \<Rightarrow> http_request list \<Rightarrow> (thrown + WitsTariffResponse) \<times> http_request list" where
  "WitsClient_getTariff upstream this_year params issued =
     (let reporter = getCountryCode (wp_reporter params);
          partner = getCountryCode (wp_partner params)
      in case wp_productCode params of
           None \<Rightarrow>
             (Inl (Api (ValidationError ''Product code is required for tariff requests'' None)),
              issued)
         | Some code \<Rightarrow>
             if code = [] then
               (Inl (Api (ValidationError ''Product code is required for tariff requests'' None)),
                issued)
             else
               client_get upstream
                 \<lparr>q_path = ''/tariff/rate'', q_reporter = reporter, q_partner = partner,
                  q_productCode = code,
                  q_year = (case wp_year params of
                              None \<Rightarrow> this_year - 1
                            | Some y \<Rightarrow> if y = 0 then this_year - 1 else y),
                  q_format = ''json''\<rparr>
                 issued)"

definition normalizeTradeFlowResponse ::
  "WitsTradeFlowResponse \<Rightarrow> string \<Rightarrow> WitsTradeFlowResponse" where
  "normalizeTradeFlowResponse resp token = resp\<lparr>partner := token\<rparr>"

section \<open>Trade Flow Service (trade-flow-service.ts)\<close>

record TradeFlowServiceConfig =
  defaultReporter :: string
  cacheTtl :: int

record CacheItem =
  item_data :: TradeFlowData
  timestamp :: iso_string

text \<open>
  The state a call can change: the service's cache and the log of the calls the client
  has issued to the upstream.
\<close>

record service_state =
  cache :: "string \<Rightarrow> CacheItem option"
  issued :: "http_request list"

text \<open>
  The clock readings of one call, in the order the code takes them: \<open>Date.now()\<close> in
  \<open>isCacheValid\<close>, the calendar year read by the client, \<open>new Date()\<close> when the cache
  entry is written and \<open>new Date()\<close> when the envelope is built.
\<close>

record clock =
  at_check :: int
  calendar_year :: int
  at_store :: int
  at_respond :: int

definition getCacheKey :: "string \<Rightarrow> string \<Rightarrow> int option \<Rightarrow> string" where
  "getCacheKey hs mk yr =
     hs @ '':'' @ mk @ '':'' @
       (case yr of None \<Rightarrow> ''latest'' | Some y \<Rightarrow> if y = 0 then ''latest'' else show_int y)"

definition isCacheValid :: "TradeFlowServiceConfig \<Rightarrow> int \<Rightarrow> iso_string \<Rightarrow> bool" where
  "isCacheValid config now ts = (now - getTime ts < cacheTtl config)"

definition cached_options :: response_options where
  "cached_options =
     no_options\<lparr>o_metadata :=
       Some (no_metadata\<lparr>p_confidence_score := Some 0.95,
                          p_data_completeness := Some complete\<rparr>)\<rparr>"

definition toTradeFlowData :: "WitsTradeFlowResponse \<Rightarrow> TradeFlowData" where
  "toTradeFlowData witsResponse =
     \<lparr>import_value_usd = tradeValue witsResponse,
      export_value_usd = 0,
      growth_rate = 12.5,
      top_exporters =
        [\<lparr>country = ''China'', market_share = 35\<rparr>,
         \<lparr>country = ''Germany'', market_share = 15\<rparr>,
         \<lparr>country = ''South Africa'', market_share = 8\<rparr>],
      import_volume =
        Some (case netWeight witsResponse of None \<Rightarrow> 0 | Some w \<Rightarrow> if w = 0 then 0 else w)\<rparr>"

definition TradeFlowService_getTradeFlow ::
  "TradeFlowServiceConfig \<Rightarrow> (http_request \<Rightarrow> WitsTradeFlowResponse axios_result) \<Rightarrow> clock
     \<Rightarrow> MarketIntelligenceParams \<Rightarrow> service_state
     \<Rightarrow> (thrown + TradeFlowData ApiResponse) \<times> service_state" where
  "TradeFlowService_getTradeFlow config upstream clk params st =
     (case hs_code params of
        None \<Rightarrow>
          (Inl (Api (ValidationError ''HS code is required for trade flow requests''
                       (params_details params))), st)
      | Some hs \<Rightarrow>
        if hs = [] then
          (Inl (Api (ValidationError ''HS code is required for trade flow requests''
                       (params_details params))), st)
        else
          (case market params of
             None \<Rightarrow>
               (Inl (Api (ValidationError ''Market is required for trade flow requests''
                            (params_details params))), st)
           | Some mk \<Rightarrow>
             if mk = [] then
               (Inl (Api (ValidationError ''Market is required for trade flow requests''
                            (params_details params))), st)
             else
               (let cacheKey = getCacheKey hs mk (year params);
                    cachedItem = cache st cacheKey;
                    fetched =
                      (case WitsClient_getTradeFlow upstream (calendar_year clk)
                              \<lparr>wp_reporter = Some (defaultReporter config),
                               wp_partner = Some mk,
                               wp_productCode = Some hs,
                               wp_year = year params\<rparr>
                              (issued st) of
                         (Inl e, calls) \<Rightarrow> (Inl e, st\<lparr>issued := calls\<rparr>)
                       | (Inr witsResponse, calls) \<Rightarrow>
                           (let tradeFlowData = toTradeFlowData witsResponse in
                            (Inr (createSuccessResponse (at_respond clk) tradeFlowData
                                    (metadata_option ''WITS API'' 0.95)),
                             st\<lparr>issued := calls,
                                cache := (cache st)(cacheKey \<mapsto>
                                  \<lparr>item_data = tradeFlowData,
                                   timestamp = toISOString (at_store clk)\<rparr>)\<rparr>)))
                in case cachedItem of
                     None \<Rightarrow> fetched
                   | Some item \<Rightarrow>
                       if isCacheValid config (at_check clk) (timestamp item) then
                         (Inr (createCachedResponse (at_respond clk) (item_data item)
                                 (AsString (timestamp item)) cached_options), st)
                       else fetched)))"

definition clearCache :: "service_state \<Rightarrow> service_state" where
  "clearCache st = st\<lparr>cache := Map.empty\<rparr>"

section \<open>Fixtures (handler.test.ts, wits-client.test.ts, the service's defaults)\<close>

text \<open>The request \<open>{}\<close>, and the trade-flow request of the tests.\<close>

definition empty_params :: MarketIntelligenceParams where
  "empty_params =
     \<lparr>type = None, hs_code = None, market = None, year = None, origin = None,
      destination = None, product_category = None, industry = None\<rparr>"

definition sample_trade_flow_params :: MarketIntelligenceParams where
  "sample_trade_flow_params =
     empty_params\<lparr>type := Some ''trade_flow'', hs_code := Some ''210690'', market := Some ''UAE''\<rparr>"

definition mockWitsResponse :: WitsTradeFlowResponse where
  "mockWitsResponse =
     \<lparr>reporter = ''WLD'', partner = ''ARE'', productCode = ''210690'', wits_year = 2022,
      tradeValue = 5000000000, netWeight = Some 250000, quantity = None, tradeFlow = Import\<rparr>"

text \<open>The configuration the constructor of the service defaults to, and a new service.\<close>

definition default_config :: TradeFlowServiceConfig where
  "default_config = \<lparr>defaultReporter = ''WLD'', cacheTtl = 3600000\<rparr>"

definition new_service :: service_state where
  "new_service = \<lparr>cache = Map.empty, issued = []\<rparr>"

text \<open>An upstream that answers every query with the mocked response.\<close>

definition sample_upstream :: "http_request \<Rightarrow> WitsTradeFlowResponse axios_result" where
  "sample_upstream q = Resolved mockWitsResponse"

text \<open>
  The clock of a call that starts at \<open>t\<close>, writes the cache 200 ms later and builds the
  envelope a millisecond after that.
\<close>

definition clock_at :: "int \<Rightarrow> clock" where
  "clock_at t = \<lparr>at_check = t, calendar_year = 2023, at_store = t + 200, at_respond = t + 201\<rparr>"

text \<open>The service after one call for the sample request on a new service.\<close>

definition warm_service :: service_state where
  "warm_service =
     snd (TradeFlowService_getTradeFlow default_config sample_upstream (clock_at 1000)
            sample_trade_flow_params new_service)"

text \<open>
  \<open>new Error(msg)\<close> as the engine builds it: the stack starts with the header line
  \<open>Error: msg\<close>, followed by the frame lines.
\<close>

definition new_Error :: "string \<Rightarrow> string \<Rightarrow> js_error" where
  "new_Error msg frames =
     \<lparr>err_name = ''Error'', err_message = msg, err_stack = Some (''Error: '' @ msg @ frames)\<rparr>"

text \<open>The query that the service's call to the client sends.\<close>

abbreviation trade_flow_query ::
  "TradeFlowServiceConfig \<Rightarrow> clock \<Rightarrow> string \<Rightarrow> string \<Rightarrow> int option \<Rightarrow> http_request" where
  "trade_flow_query config clk hs mk yr \<equiv>
     \<lparr>q_path = ''/trade/flow'',
      q_reporter = getCountryCode (Some (defaultReporter config)),
      q_partner = getCountryCode (Some mk),
      q_productCode = hs,
      q_year = (case yr of None \<Rightarrow> calendar_year clk - 1
                | Some y \<Rightarrow> if y = 0 then calendar_year clk - 1 else y),
      q_format = ''json''\<rparr>"

section \<open>Country codes and the caller's market token\<close>

lemma toUpperCase_literals:
  "toUpperCase ''uae'' = ''UAE''" "toUpperCase ''UAE'' = ''UAE''"
  "toUpperCase ''XYZ'' = ''XYZ''" "toUpperCase ''xyz'' = ''XYZ''"
  by (simp_all add: toUpperCase_def toUpperChar_def)

text \<open>
  Claim C6, as the code has it. For every non-empty token whose uppercased form is not a
  key of the country code map, \<open>getCountryCode\<close> returns the token as it was passed,
  not its uppercased form: the last \<open>return\<close> gives back \<open>market\<close>, "the original".
\<close>

theorem getCountryCode_unmapped:
  "t \<noteq> [] \<Longrightarrow> map_of countryCodeMap (toUpperCase t) = None \<Longrightarrow> getCountryCode (Some t) = t"
  by (simp add: getCountryCode_def)

theorem getCountryCode_unmapped_witness:
  "''xyz'' \<noteq> [] \<and> map_of countryCodeMap (toUpperCase ''xyz'') = None
   \<and> getCountryCode (Some ''xyz'') = ''xyz''"
proof -
  have a: "''xyz'' \<noteq> []" by simp
  have b: "map_of countryCodeMap (toUpperCase ''xyz'') = None"
    by (simp add: countryCodeMap_def toUpperCase_literals)
  show ?thesis using a b getCountryCode_unmapped [OF a b] by simp
qed

text \<open>
  The token \<open>xyz\<close> is not empty and its uppercased form \<open>XYZ\<close> is not a key of the map,
  yet the result is \<open>xyz\<close> and not \<open>XYZ\<close>.
\<close>

theorem getCountryCode_unmapped_counterexample:
  "''xyz'' \<noteq> [] \<and> map_of countryCodeMap (toUpperCase ''xyz'') = None
   \<and> toUpperCase ''xyz'' = ''XYZ''
   \<and> getCountryCode (Some ''xyz'') = ''xyz''
   \<and> getCountryCode (Some ''xyz'') \<noteq> toUpperCase ''xyz''"
  by (simp add: getCountryCode_def countryCodeMap_def toUpperCase_literals)

text \<open>
  Claim C7. \<open>getCountryCode\<close> does not depend on the case of a mapped token: \<open>uae\<close> and
  \<open>UAE\<close> both give \<open>ARE\<close>, and in general two tokens with the same uppercased form
  give the same code when that form is a key of the map. The unmapped uppercase token
  \<open>XYZ\<close> comes back unchanged, and an empty or missing token gives \<open>WLD\<close>.
\<close>

theorem getCountryCode_case_insensitive:
  "getCountryCode (Some ''uae'') = ''ARE''
   \<and> getCountryCode (Some ''UAE'') = ''ARE''
   \<and> getCountryCode (Some ''XYZ'') = ''XYZ''
   \<and> getCountryCode (Some []) = ''WLD''
   \<and> getCountryCode None = ''WLD''
   \<and> (toUpperCase s = toUpperCase t \<and> map_of countryCodeMap (toUpperCase s) \<noteq> None
        \<longrightarrow> getCountryCode (Some s) = getCountryCode (Some t))"
proof -
  have empty: "map_of countryCodeMap (toUpperCase []) = None"
    by (simp add: countryCodeMap_def toUpperCase_def)
  have general: "getCountryCode (Some s) = getCountryCode (Some t)"
    if eq: "toUpperCase s = toUpperCase t" and m: "map_of countryCodeMap (toUpperCase s) \<noteq> None"
  proof -
    have s: "s \<noteq> []" using m empty by auto
    have t: "t \<noteq> []" using m eq empty by auto
    from m obtain code where c: "map_of countryCodeMap (toUpperCase s) = Some code" by auto
    then have "code \<noteq> []"
      by (auto simp: countryCodeMap_def split: if_splits)
    then show ?thesis using s t eq c by (simp add: getCountryCode_def)
  qed
  have concrete: "getCountryCode (Some ''uae'') = ''ARE''" "getCountryCode (Some ''UAE'') = ''ARE''"
    "getCountryCode (Some ''XYZ'') = ''XYZ''" "getCountryCode (Some []) = ''WLD''"
    "getCountryCode None = ''WLD''"
    by (simp_all add: getCountryCode_def countryCodeMap_def toUpperCase_literals)
  show ?thesis using general concrete by blast
qed

theorem getCountryCode_case_insensitive_witness:
  "toUpperCase ''uae'' = toUpperCase ''UAE''
   \<and> map_of countryCodeMap (toUpperCase ''uae'') \<noteq> None
   \<and> getCountryCode (Some ''uae'') = getCountryCode (Some ''UAE'')"
  using getCountryCode_case_insensitive [of "''uae''" "''UAE''"]
  by (simp add: countryCodeMap_def toUpperCase_literals)

text \<open>
  Claim C9. \<open>normalizeTradeFlowResponse\<close> returns the response with \<open>partner\<close> set to
  the market token it is given and every other field (\<open>reporter\<close>, \<open>productCode\<close>,
  \<open>year\<close>, \<open>tradeValue\<close>, \<open>netWeight\<close>, \<open>quantity\<close>, \<open>tradeFlow\<close>) as it was; a
  response with partner \<open>ARE\<close> and the token \<open>UAE\<close> give partner \<open>UAE\<close>.
\<close>

theorem normalizeTradeFlowResponse_frame:
  "partner (normalizeTradeFlowResponse r m) = m
   \<and> reporter (normalizeTradeFlowResponse r m) = reporter r
   \<and> productCode (normalizeTradeFlowResponse r m) = productCode r
   \<and> wits_year (normalizeTradeFlowResponse r m) = wits_year r
   \<and> tradeValue (normalizeTradeFlowResponse r m) = tradeValue r
   \<and> netWeight (normalizeTradeFlowResponse r m) = netWeight r
   \<and> quantity (normalizeTradeFlowResponse r m) = quantity r
   \<and> tradeFlow (normalizeTradeFlowResponse r m) = tradeFlow r
   \<and> partner mockWitsResponse = ''ARE''
   \<and> partner (normalizeTradeFlowResponse mockWitsResponse ''UAE'') = ''UAE''"
  by (simp add: normalizeTradeFlowResponse_def mockWitsResponse_def)

section \<open>The success builder\<close>

text \<open>
  Claim C8, as the code has it. The envelope of \<open>createSuccessResponse\<close> carries the
  status option it is given, and 200 when none is given; its data field is the payload
  as passed. The builder checks neither: the status lies in 200..299 when no status is
  supplied or the supplied one lies there, and the data is null when the payload is.
\<close>

theorem createSuccessResponse_status:
  "status (createSuccessResponse now d options) =
     (case o_status options of None \<Rightarrow> 200 | Some s \<Rightarrow> s)
   \<and> data (createSuccessResponse now d options) = d
   \<and> (o_status options = None \<longrightarrow> status (createSuccessResponse now d options) = 200)
   \<and> ((\<exists>s. o_status options = Some s \<and> 200 \<le> s \<and> s \<le> 299) \<longrightarrow>
        200 \<le> status (createSuccessResponse now d options)
        \<and> status (createSuccessResponse now d options) \<le> 299)"
  by (auto simp: createSuccessResponse_def Let_def)

theorem createSuccessResponse_status_witness:
  "o_status no_options = None
   \<and> status (createSuccessResponse 0 (1::int) no_options) = 200
   \<and> (\<exists>s. o_status (no_options\<lparr>o_status := Some 201\<rparr>) = Some s \<and> 200 \<le> s \<and> s \<le> 299)
   \<and> 200 \<le> status (createSuccessResponse 0 (1::int) (no_options\<lparr>o_status := Some 201\<rparr>))
   \<and> status (createSuccessResponse 0 (1::int) (no_options\<lparr>o_status := Some 201\<rparr>)) \<le> 299"
  using createSuccessResponse_status [of 0 "1::int" no_options]
    createSuccessResponse_status [of 0 "1::int" "no_options\<lparr>o_status := Some 201\<rparr>"]
  by (simp add: no_options_def)

text \<open>
  With the options \<open>{status: 500}\<close> and the payload \<open>null\<close> the builder returns an
  envelope of status 500, outside 200..299, whose data is null.
\<close>

theorem createSuccessResponse_status_counterexample:
  "status (createSuccessResponse 0 JNull (no_options\<lparr>o_status := Some 500\<rparr>)) = 500
   \<and> \<not> (200 \<le> status (createSuccessResponse 0 JNull (no_options\<lparr>o_status := Some 500\<rparr>))
        \<and> status (createSuccessResponse 0 JNull (no_options\<lparr>o_status := Some 500\<rparr>)) \<le> 299)
   \<and> data (createSuccessResponse 0 JNull (no_options\<lparr>o_status := Some 500\<rparr>)) = JNull"
  by (simp add: createSuccessResponse_def no_options_def Let_def)

section \<open>Dispatch and the branches' checks\<close>

lemmas guard_defs =
  isTradeFlowParams_def isTariffParams_def isMarketSizeParams_def isBuyersParams_def
  isCompetitiveLandscapeParams_def TRADE_FLOW_def TARIFF_def MARKET_SIZE_def BUYERS_def
  COMPETITIVE_LANDSCAPE_def

text \<open>
  Claim C1. For every request: when the discriminant is missing or empty, \<open>handle\<close>
  throws the ValidationError "Request type is required"; when it is a string other than
  the five known literals, \<open>handle\<close> throws the ValidationError whose message ends
  with that string; when it is one of the five literals, exactly one of the five type
  guards holds and \<open>handle\<close> is the call of that guard's branch handler.
\<close>

theorem handle_dispatch:
  "(falsy (type p) \<longrightarrow>
      handle now p = Inl (Api (ValidationError ''Request type is required'' (params_details p))))
   \<and> (\<forall>t. type p = Some t \<and> t \<noteq> []
            \<and> t \<notin> {''trade_flow'', ''tariff'', ''market_size'', ''buyers'', ''competitive_landscape''}
         \<longrightarrow> handle now p =
               Inl (Api (ValidationError (''Unsupported request type: '' @ t) (params_details p))))
   \<and> (type p \<in> {Some ''trade_flow'', Some ''tariff'', Some ''market_size'', Some ''buyers'',
                  Some ''competitive_landscape''}
         \<longrightarrow> length (filter (\<lambda>guard. guard p)
                  [isTradeFlowParams, isTariffParams, isMarketSizeParams, isBuyersParams,
                   isCompetitiveLandscapeParams]) = 1)
   \<and> (type p = Some ''trade_flow'' \<longrightarrow> handle now p = handleTradeFlow now p)
   \<and> (type p = Some ''tariff'' \<longrightarrow> handle now p = handleTariff now p)
   \<and> (type p = Some ''market_size'' \<longrightarrow> handle now p = handleMarketSize now p)
   \<and> (type p = Some ''buyers'' \<longrightarrow> handle now p = handleBuyers now p)
   \<and> (type p = Some ''competitive_landscape'' \<longrightarrow>
         handle now p = handleCompetitiveLandscape now p)"
proof -
  have missing: "falsy (type p) \<longrightarrow>
      handle now p = Inl (Api (ValidationError ''Request type is required'' (params_details p)))"
    by (simp add: handle_def)
  have unknown: "\<forall>t. type p = Some t \<and> t \<noteq> []
            \<and> t \<notin> {''trade_flow'', ''tariff'', ''market_size'', ''buyers'', ''competitive_landscape''}
         \<longrightarrow> handle now p =
               Inl (Api (ValidationError (''Unsupported request type: '' @ t) (params_details p)))"
    by (simp add: handle_def falsy_def guard_defs)
  have one: "type p \<in> {Some ''trade_flow'', Some ''tariff'', Some ''market_size'', Some ''buyers'',
                  Some ''competitive_landscape''}
         \<longrightarrow> length (filter (\<lambda>guard. guard p)
                  [isTradeFlowParams, isTariffParams, isMarketSizeParams, isBuyersParams,
                   isCompetitiveLandscapeParams]) = 1"
    by (auto simp: guard_defs)
  have routes:
    "type p = Some ''trade_flow'' \<longrightarrow> handle now p = handleTradeFlow now p"
    "type p = Some ''tariff'' \<longrightarrow> handle now p = handleTariff now p"
    "type p = Some ''market_size'' \<longrightarrow> handle now p = handleMarketSize now p"
    "type p = Some ''buyers'' \<longrightarrow> handle now p = handleBuyers now p"
    "type p = Some ''competitive_landscape'' \<longrightarrow> handle now p = handleCompetitiveLandscape now p"
    by (simp_all add: handle_def falsy_def guard_defs)
  show ?thesis by (intro conjI missing unknown one routes)
qed

theorem handle_dispatch_witness:
  "falsy (type empty_params)
   \<and> handle 0 empty_params =
       Inl (Api (ValidationError ''Request type is required'' (params_details empty_params)))
   \<and> handle 0 (empty_params\<lparr>type := Some ''unsupported_type''\<rparr>) =
       Inl (Api (ValidationError ''Unsupported request type: unsupported_type''
                   (params_details (empty_params\<lparr>type := Some ''unsupported_type''\<rparr>))))
   \<and> length (filter (\<lambda>guard. guard (empty_params\<lparr>type := Some ''trade_flow''\<rparr>))
         [isTradeFlowParams, isTariffParams, isMarketSizeParams, isBuyersParams,
          isCompetitiveLandscapeParams]) = 1
   \<and> handle 0 (empty_params\<lparr>type := Some ''trade_flow''\<rparr>) =
       handleTradeFlow 0 (empty_params\<lparr>type := Some ''trade_flow''\<rparr>)
   \<and> handle 0 (empty_params\<lparr>type := Some ''tariff''\<rparr>) =
       handleTariff 0 (empty_params\<lparr>type := Some ''tariff''\<rparr>)
   \<and> handle 0 (empty_params\<lparr>type := Some ''market_size''\<rparr>) =
       handleMarketSize 0 (empty_params\<lparr>type := Some ''market_size''\<rparr>)
   \<and> handle 0 (empty_params\<lparr>type := Some ''buyers''\<rparr>) =
       handleBuyers 0 (empty_params\<lparr>type := Some ''buyers''\<rparr>)
   \<and> handle 0 (empty_params\<lparr>type := Some ''competitive_landscape''\<rparr>) =
       handleCompetitiveLandscape 0 (empty_params\<lparr>type := Some ''competitive_landscape''\<rparr>)"
proof -
  have a: "falsy (type empty_params)" by (simp add: empty_params_def falsy_def)
  show ?thesis
    using a handle_dispatch [of empty_params 0]
      handle_dispatch [of "empty_params\<lparr>type := Some ''unsupported_type''\<rparr>" 0]
      handle_dispatch [of "empty_params\<lparr>type := Some ''trade_flow''\<rparr>" 0]
      handle_dispatch [of "empty_params\<lparr>type := Some ''tariff''\<rparr>" 0]
      handle_dispatch [of "empty_params\<lparr>type := Some ''market_size''\<rparr>" 0]
      handle_dispatch [of "empty_params\<lparr>type := Some ''buyers''\<rparr>" 0]
      handle_dispatch [of "empty_params\<lparr>type := Some ''competitive_landscape''\<rparr>" 0]
    by simp
qed

text \<open>
  Claim C2. In each of the five branches a missing or empty required field makes the
  branch throw a ValidationError whose message names that field, and the fields are
  checked in the order of the source: the error is the one of the first required field
  that is missing (trade flow: HS code, then market; tariff: HS code, origin,
  destination; market size and competitive landscape: product category, then market;
  buyers: industry, then market).
\<close>

theorem branch_required_fields:
  "(falsy (hs_code p) \<longrightarrow> handleTradeFlow now p =
      Inl (Api (ValidationError ''HS code is required for trade flow requests'' (params_details p))))
   \<and> (\<not> falsy (hs_code p) \<and> falsy (market p) \<longrightarrow> handleTradeFlow now p =
      Inl (Api (ValidationError ''Market is required for trade flow requests'' (params_details p))))
   \<and> (falsy (hs_code p) \<longrightarrow> handleTariff now p =
      Inl (Api (ValidationError ''HS code is required for tariff requests'' (params_details p))))
   \<and> (\<not> falsy (hs_code p) \<and> falsy (origin p) \<longrightarrow> handleTariff now p =
      Inl (Api (ValidationError ''Origin country is required for tariff requests'' (params_details p))))
   \<and> (\<not> falsy (hs_code p) \<and> \<not> falsy (origin p) \<and> falsy (destination p) \<longrightarrow> handleTariff now p =
      Inl (Api (ValidationError ''Destination country is required for tariff requests''
                  (params_details p))))
   \<and> (falsy (product_category p) \<longrightarrow> handleMarketSize now p =
      Inl (Api (ValidationError ''Product category is required for market size requests''
                  (params_details p))))
   \<and> (\<not> falsy (product_category p) \<and> falsy (market p) \<longrightarrow> handleMarketSize now p =
      Inl (Api (ValidationError ''Market is required for market size requests'' (params_details p))))
   \<and> (falsy (industry p) \<longrightarrow> handleBuyers now p =
      Inl (Api (ValidationError ''Industry is required for buyers requests'' (params_details p))))
   \<and> (\<not> falsy (industry p) \<and> falsy (market p) \<longrightarrow> handleBuyers now p =
      Inl (Api (ValidationError ''Market is required for buyers requests'' (params_details p))))
   \<and> (falsy (product_category p) \<longrightarrow> handleCompetitiveLandscape now p =
      Inl (Api (ValidationError ''Product category is required for competitive landscape requests''
                  (params_details p))))
   \<and> (\<not> falsy (product_category p) \<and> falsy (market p) \<longrightarrow> handleCompetitiveLandscape now p =
      Inl (Api (ValidationError ''Market is required for competitive landscape requests''
                  (params_details p))))"
  by (simp add: handleTradeFlow_def handleTariff_def handleMarketSize_def handleBuyers_def
      handleCompetitiveLandscape_def)

theorem branch_required_fields_witness:
  "falsy (hs_code empty_params) \<and> falsy (product_category empty_params)
   \<and> falsy (industry empty_params)
   \<and> handleTradeFlow 0 empty_params =
       Inl (Api (ValidationError ''HS code is required for trade flow requests''
                   (params_details empty_params)))
   \<and> handleTariff 0 empty_params =
       Inl (Api (ValidationError ''HS code is required for tariff requests''
                   (params_details empty_params)))
   \<and> handleMarketSize 0 empty_params =
       Inl (Api (ValidationError ''Product category is required for market size requests''
                   (params_details empty_params)))
   \<and> handleBuyers 0 empty_params =
       Inl (Api (ValidationError ''Industry is required for buyers requests''
                   (params_details empty_params)))
   \<and> handleCompetitiveLandscape 0 empty_params =
       Inl (Api (ValidationError ''Product category is required for competitive landscape requests''
                   (params_details empty_params)))
   \<and> handleTradeFlow 0 (empty_params\<lparr>hs_code := Some ''0123''\<rparr>) =
       Inl (Api (ValidationError ''Market is required for trade flow requests''
                   (params_details (empty_params\<lparr>hs_code := Some ''0123''\<rparr>))))
   \<and> handleTariff 0 (empty_params\<lparr>hs_code := Some ''0123''\<rparr>) =
       Inl (Api (ValidationError ''Origin country is required for tariff requests''
                   (params_details (empty_params\<lparr>hs_code := Some ''0123''\<rparr>))))
   \<and> handleTariff 0 (empty_params\<lparr>hs_code := Some ''0123'', origin := Some ''ZAF''\<rparr>) =
       Inl (Api (ValidationError ''Destination country is required for tariff requests''
                   (params_details (empty_params\<lparr>hs_code := Some ''0123'', origin := Some ''ZAF''\<rparr>))))
   \<and> handleMarketSize 0 (empty_params\<lparr>product_category := Some ''food''\<rparr>) =
       Inl (Api (ValidationError ''Market is required for market size requests''
                   (params_details (empty_params\<lparr>product_category := Some ''food''\<rparr>))))
   \<and> handleBuyers 0 (empty_params\<lparr>industry := Some ''retail''\<rparr>) =
       Inl (Api (ValidationError ''Market is required for buyers requests''
                   (params_details (empty_params\<lparr>industry := Some ''retail''\<rparr>))))
   \<and> handleCompetitiveLandscape 0 (empty_params\<lparr>product_category := Some ''food''\<rparr>) =
       Inl (Api (ValidationError ''Market is required for competitive landscape requests''
                   (params_details (empty_params\<lparr>product_category := Some ''food''\<rparr>))))"
proof -
  have a: "falsy (hs_code empty_params)" "falsy (product_category empty_params)"
    "falsy (industry empty_params)" "falsy (market empty_params)" "falsy (origin empty_params)"
    "falsy (destination empty_params)"
    by (simp_all add: empty_params_def falsy_def)
  have b: "\<not> falsy (Some ''0123'')" "\<not> falsy (Some ''ZAF'')" "\<not> falsy (Some ''food'')"
    "\<not> falsy (Some ''retail'')"
    by (simp_all add: falsy_def)
  show ?thesis
    using a b branch_required_fields [of empty_params 0]
      branch_required_fields [of "empty_params\<lparr>hs_code := Some ''0123''\<rparr>" 0]
      branch_required_fields [of "empty_params\<lparr>hs_code := Some ''0123'', origin := Some ''ZAF''\<rparr>" 0]
      branch_required_fields [of "empty_params\<lparr>product_category := Some ''food''\<rparr>" 0]
      branch_required_fields [of "empty_params\<lparr>industry := Some ''retail''\<rparr>" 0]
    by simp
qed

section \<open>The trade flow service and its cache\<close>

lemma service_invalid_params:
  assumes "falsy (hs_code p) \<or> falsy (market p)"
  shows "\<exists>e. TradeFlowService_getTradeFlow config upstream clk p st = (Inl e, st)"
  using assms
  by (auto simp: TradeFlowService_getTradeFlow_def falsy_def split: option.splits)

text \<open>
  Claim C10. When \<open>hs_code\<close> or \<open>market\<close> is missing or empty,
  \<open>TradeFlowService.getTradeFlow\<close> throws a ValidationError and leaves the state as it
  was, whatever the cache holds and whatever the upstream would answer: the cache is not
  changed and no call is issued.
\<close>

theorem getTradeFlow_validation_atomic:
  "falsy (hs_code p) \<or> falsy (market p) \<Longrightarrow>
     \<exists>msg st'. TradeFlowService_getTradeFlow config upstream clk p st =
                 (Inl (Api (ValidationError msg (params_details p))), st')
       \<and> st' = st \<and> cache st' = cache st \<and> issued st' = issued st"
  by (auto simp: TradeFlowService_getTradeFlow_def falsy_def split: option.splits)

theorem getTradeFlow_validation_atomic_witness:
  "(falsy (hs_code empty_params) \<or> falsy (market empty_params))
   \<and> (\<exists>msg. TradeFlowService_getTradeFlow default_config sample_upstream (clock_at 1000)
               empty_params warm_service =
             (Inl (Api (ValidationError msg (params_details empty_params))), warm_service))"
proof -
  have a: "falsy (hs_code empty_params) \<or> falsy (market empty_params)"
    by (simp add: empty_params_def falsy_def)
  from getTradeFlow_validation_atomic [OF a] a show ?thesis by blast
qed

lemma service_hit:
  assumes "hs_code p = Some hs" "hs \<noteq> []" "market p = Some mk" "mk \<noteq> []"
    and "cache st (getCacheKey hs mk (year p)) = Some item"
    and "isCacheValid config (at_check clk) (timestamp item)"
  shows "TradeFlowService_getTradeFlow config upstream clk p st =
           (Inr (createCachedResponse (at_respond clk) (item_data item)
                   (AsString (timestamp item)) cached_options), st)"
  using assms by (simp add: TradeFlowService_getTradeFlow_def Let_def)

lemma service_fetch:
  assumes "hs_code p = Some hs" "hs \<noteq> []" "market p = Some mk" "mk \<noteq> []"
    and "\<And>item. cache st (getCacheKey hs mk (year p)) = Some item \<Longrightarrow>
           \<not> isCacheValid config (at_check clk) (timestamp item)"
  shows "TradeFlowService_getTradeFlow config upstream clk p st =
           (case upstream (trade_flow_query config clk hs mk (year p)) of
              Resolved w \<Rightarrow>
                (Inr (createSuccessResponse (at_respond clk) (toTradeFlowData w)
                        (metadata_option ''WITS API'' 0.95)),
                 st\<lparr>issued := issued st @ [trade_flow_query config clk hs mk (year p)],
                    cache := (cache st)(getCacheKey hs mk (year p) \<mapsto>
                      \<lparr>item_data = toTradeFlowData w,
                       timestamp = toISOString (at_store clk)\<rparr>)\<rparr>)
            | Rejected e \<Rightarrow>
                (Inl (responseInterceptor e),
                 st\<lparr>issued := issued st @ [trade_flow_query config clk hs mk (year p)]\<rparr>))"
proof (cases "cache st (getCacheKey hs mk (year p))")
  case None
  then show ?thesis
    using assms(1-4)
    by (simp add: TradeFlowService_getTradeFlow_def WitsClient_getTradeFlow_def client_get_def
        Let_def split: axios_result.splits)
next
  case (Some item)
  then have "\<not> isCacheValid config (at_check clk) (timestamp item)" using assms(5) by simp
  then show ?thesis
    using assms(1-4) Some
    by (simp add: TradeFlowService_getTradeFlow_def WitsClient_getTradeFlow_def client_get_def
        Let_def split: axios_result.splits)
qed

lemma cached_response_fields:
  "data (createCachedResponse now d (AsString ts) cached_options) = d"
  "status (createCachedResponse now d (AsString ts) cached_options) = 200"
  "source (metadata (createCachedResponse now d (AsString ts) cached_options)) = ''Cache''"
  "last_updated (metadata (createCachedResponse now d (AsString ts) cached_options)) = ts"
  by (simp_all add: createCachedResponse_def createSuccessResponse_def cached_options_def
      no_options_def no_metadata_def Let_def)

lemma sample_first_call:
  "TradeFlowService_getTradeFlow default_config sample_upstream (clock_at 1000)
     sample_trade_flow_params new_service =
   (Inr (createSuccessResponse 1201 (toTradeFlowData mockWitsResponse)
           (metadata_option ''WITS API'' 0.95)),
    new_service\<lparr>issued := [trade_flow_query default_config (clock_at 1000) ''210690'' ''UAE'' None],
      cache := (Map.empty)(getCacheKey ''210690'' ''UAE'' None \<mapsto>
        \<lparr>item_data = toTradeFlowData mockWitsResponse, timestamp = toISOString 1200\<rparr>)\<rparr>)"
proof -
  have p: "hs_code sample_trade_flow_params = Some ''210690''" "''210690'' \<noteq> []"
    "market sample_trade_flow_params = Some ''UAE''" "''UAE'' \<noteq> []"
    by (simp_all add: sample_trade_flow_params_def empty_params_def)
  have y: "year sample_trade_flow_params = None"
    by (simp add: sample_trade_flow_params_def empty_params_def)
  have none: "\<And>item. cache new_service (getCacheKey ''210690'' ''UAE'' (year sample_trade_flow_params)) = Some item
      \<Longrightarrow> \<not> isCacheValid default_config (at_check (clock_at 1000)) (timestamp item)"
    by (simp add: new_service_def)
  note service_fetch [where st = new_service and clk = "clock_at 1000" and config = default_config
      and upstream = sample_upstream, OF p none]
  then show ?thesis
    by (simp add: y sample_upstream_def clock_at_def new_service_def)
qed

text \<open>
  Claim C5. A first call succeeds and goes to the upstream (the log of issued calls
  grows), so it stores an entry under the key \<open>hs_code:market:year\<close>, with \<open>latest\<close>
  in the place of a year that is absent (or zero), holding the data it returns and the
  time of the store. A second call with the same
  \<open>hs_code\<close>, \<open>market\<close> and \<open>year\<close> whose clock reads less than \<open>cacheTtl\<close> after that
  time returns the stored data with source \<open>Cache\<close> and \<open>last_updated\<close> equal to the
  entry's timestamp, and leaves the state as it is: no call is issued, and the two calls
  have issued one. When the clock reads \<open>cacheTtl\<close> or more after the store, the second
  call issues one fresh call, and when the upstream answers it the entry is overwritten
  with the new data and the new time of the store.
\<close>

theorem cache_hit_within_ttl_and_expiry:
  assumes first: "TradeFlowService_getTradeFlow config up1 clk1 p st0 = (Inr resp1, st1)"
    and stored: "issued st1 \<noteq> issued st0"
    and same: "hs_code p2 = hs_code p \<and> market p2 = market p \<and> year p2 = year p"
  shows "\<exists>hs mk.
     hs_code p = Some hs \<and> market p = Some mk
     \<and> getCacheKey hs mk (year p) =
         hs @ '':'' @ mk @ '':'' @
           (case year p of None \<Rightarrow> ''latest''
            | Some y \<Rightarrow> if y = 0 then ''latest'' else show_int y)
     \<and> cache st1 (hs @ '':'' @ mk @ '':'' @
           (case year p of None \<Rightarrow> ''latest''
            | Some y \<Rightarrow> if y = 0 then ''latest'' else show_int y)) =
         Some \<lparr>item_data = data resp1, timestamp = toISOString (at_store clk1)\<rparr>
     \<and> cache st1 (getCacheKey hs mk (year p)) =
         Some \<lparr>item_data = data resp1, timestamp = toISOString (at_store clk1)\<rparr>
     \<and> length (issued st1) = length (issued st0) + 1
     \<and> (at_check clk2 - at_store clk1 < cacheTtl config \<longrightarrow>
          (\<exists>resp2. TradeFlowService_getTradeFlow config up2 clk2 p2 st1 = (Inr resp2, st1)
             \<and> data resp2 = data resp1
             \<and> source (metadata resp2) = ''Cache''
             \<and> last_updated (metadata resp2) = toISOString (at_store clk1)))
     \<and> (at_check clk2 - at_store clk1 \<ge> cacheTtl config \<longrightarrow>
          (\<exists>req res2 st2. TradeFlowService_getTradeFlow config up2 clk2 p2 st1 = (res2, st2)
             \<and> issued st2 = issued st1 @ [req]
             \<and> (\<forall>w. up2 req = Resolved w \<longrightarrow>
                   res2 = Inr (createSuccessResponse (at_respond clk2) (toTradeFlowData w)
                                 (metadata_option ''WITS API'' 0.95))
                   \<and> cache st2 (getCacheKey hs mk (year p)) =
                       Some \<lparr>item_data = toTradeFlowData w,
                             timestamp = toISOString (at_store clk2)\<rparr>)))"
proof -
  have valid: "\<not> (falsy (hs_code p) \<or> falsy (market p))"
    using service_invalid_params [where p = p and config = config and upstream = up1
        and clk = clk1 and st = st0] first by auto
  then obtain hs mk where hs: "hs_code p = Some hs" "hs \<noteq> []"
    and mk: "market p = Some mk" "mk \<noteq> []"
    by (auto simp: falsy_def split: option.splits)
  let ?key = "getCacheKey hs mk (year p)"
  let ?q1 = "trade_flow_query config clk1 hs mk (year p)"
  have nohit: "\<not> isCacheValid config (at_check clk1) (timestamp item)"
    if "cache st0 ?key = Some item" for item
  proof
    assume "isCacheValid config (at_check clk1) (timestamp item)"
    from service_hit [OF hs mk that this, where upstream = up1] first have "st1 = st0" by simp
    with stored show False by simp
  qed
  from service_fetch [OF hs mk nohit, where upstream = up1] first
  obtain w where w: "up1 ?q1 = Resolved w"
    and resp1: "resp1 = createSuccessResponse (at_respond clk1) (toTradeFlowData w)
                  (metadata_option ''WITS API'' 0.95)"
    and st1: "st1 = st0\<lparr>issued := issued st0 @ [?q1],
                cache := (cache st0)(?key \<mapsto>
                  \<lparr>item_data = toTradeFlowData w, timestamp = toISOString (at_store clk1)\<rparr>)\<rparr>"
    by (auto split: axios_result.splits)
  have data1: "data resp1 = toTradeFlowData w"
    by (simp add: resp1 createSuccessResponse_def Let_def)
  let ?item = "\<lparr>item_data = data resp1, timestamp = toISOString (at_store clk1)\<rparr>"
  have entry: "cache st1 ?key = Some ?item"
    by (simp add: st1 data1)
  have count: "length (issued st1) = length (issued st0) + 1"
    by (simp add: st1)
  have hs2: "hs_code p2 = Some hs" and mk2: "market p2 = Some mk" and yr2: "year p2 = year p"
    using same hs mk by simp_all
  have entry2: "cache st1 (getCacheKey hs mk (year p2)) = Some ?item"
    using entry yr2 by simp
  have age: "isCacheValid config (at_check clk2) (timestamp ?item)
               = (at_check clk2 - at_store clk1 < cacheTtl config)"
    by (simp add: isCacheValid_def toISOString_def)
  have hit: "\<exists>resp2. TradeFlowService_getTradeFlow config up2 clk2 p2 st1 = (Inr resp2, st1)
             \<and> data resp2 = data resp1
             \<and> source (metadata resp2) = ''Cache''
             \<and> last_updated (metadata resp2) = toISOString (at_store clk1)"
    if "at_check clk2 - at_store clk1 < cacheTtl config"
  proof -
    have "isCacheValid config (at_check clk2) (timestamp ?item)" using that age by simp
    from service_hit [OF hs2 hs(2) mk2 mk(2) entry2 this, where upstream = up2]
    show ?thesis by (simp add: cached_response_fields)
  qed
  have miss: "\<exists>req res2 st2. TradeFlowService_getTradeFlow config up2 clk2 p2 st1 = (res2, st2)
             \<and> issued st2 = issued st1 @ [req]
             \<and> (\<forall>w. up2 req = Resolved w \<longrightarrow>
                   res2 = Inr (createSuccessResponse (at_respond clk2) (toTradeFlowData w)
                                 (metadata_option ''WITS API'' 0.95))
                   \<and> cache st2 ?key =
                       Some \<lparr>item_data = toTradeFlowData w,
                             timestamp = toISOString (at_store clk2)\<rparr>)"
    if "at_check clk2 - at_store clk1 \<ge> cacheTtl config"
  proof -
    have stale: "\<not> isCacheValid config (at_check clk2) (timestamp item)"
      if "cache st1 (getCacheKey hs mk (year p2)) = Some item" for item
      using that entry2 age \<open>at_check clk2 - at_store clk1 \<ge> cacheTtl config\<close> by auto
    let ?q2 = "trade_flow_query config clk2 hs mk (year p2)"
    from service_fetch [OF hs2 hs(2) mk2 mk(2) stale, where upstream = up2]
    show ?thesis
      by (cases "up2 ?q2") (auto simp: yr2 intro!: exI [of _ ?q2])
  qed
  have key: "?key = hs @ '':'' @ mk @ '':'' @
           (case year p of None \<Rightarrow> ''latest''
            | Some y \<Rightarrow> if y = 0 then ''latest'' else show_int y)"
    by (simp add: getCacheKey_def)
  have entry_at: "cache st1 (hs @ '':'' @ mk @ '':'' @
           (case year p of None \<Rightarrow> ''latest''
            | Some y \<Rightarrow> if y = 0 then ''latest'' else show_int y)) = Some ?item"
    using entry key by simp
  show ?thesis
    using hs(1) mk(1) key entry_at entry count hit miss by blast
qed

theorem cache_hit_within_ttl_and_expiry_witness:
  "TradeFlowService_getTradeFlow default_config sample_upstream (clock_at 1000)
     sample_trade_flow_params new_service =
     (Inr (createSuccessResponse 1201 (toTradeFlowData mockWitsResponse)
             (metadata_option ''WITS API'' 0.95)), warm_service)
   \<and> issued warm_service \<noteq> issued new_service
   \<and> length (issued warm_service) = 1
   \<and> getCacheKey ''210690'' ''UAE'' None = ''210690:UAE:latest''
   \<and> getCacheKey ''210690'' ''UAE'' (Some 2022) = ''210690:UAE:2022''
   \<and> cache warm_service ''210690:UAE:latest'' =
       Some \<lparr>item_data = toTradeFlowData mockWitsResponse, timestamp = toISOString 1200\<rparr>
   \<and> cache warm_service ''210690:UAE:2022'' = None
   \<and> at_check (clock_at 5000) - at_store (clock_at 1000) < cacheTtl default_config
   \<and> (\<exists>resp2. TradeFlowService_getTradeFlow default_config sample_upstream (clock_at 5000)
                  sample_trade_flow_params warm_service = (Inr resp2, warm_service)
         \<and> data resp2 = toTradeFlowData mockWitsResponse
         \<and> source (metadata resp2) = ''Cache''
         \<and> last_updated (metadata resp2) = toISOString 1200)
   \<and> at_check (clock_at 3601200) - at_store (clock_at 1000) \<ge> cacheTtl default_config
   \<and> (\<exists>req st2. TradeFlowService_getTradeFlow default_config sample_upstream (clock_at 3601200)
                  sample_trade_flow_params warm_service =
                  (Inr (createSuccessResponse 3601401 (toTradeFlowData mockWitsResponse)
                          (metadata_option ''WITS API'' 0.95)), st2)
         \<and> issued st2 = issued warm_service @ [req]
         \<and> cache st2 ''210690:UAE:latest'' =
             Some \<lparr>item_data = toTradeFlowData mockWitsResponse,
                   timestamp = toISOString 3601400\<rparr>)"
proof -
  let ?resp1 = "createSuccessResponse 1201 (toTradeFlowData mockWitsResponse)
                  (metadata_option ''WITS API'' 0.95)"
  have first: "TradeFlowService_getTradeFlow default_config sample_upstream (clock_at 1000)
     sample_trade_flow_params new_service = (Inr ?resp1, warm_service)"
    by (simp add: warm_service_def sample_first_call)
  have "issued warm_service =
      [trade_flow_query default_config (clock_at 1000) ''210690'' ''UAE'' None]"
    by (simp add: warm_service_def sample_first_call)
  then have stored: "issued warm_service \<noteq> issued new_service"
    by (simp add: new_service_def)
  have same: "hs_code sample_trade_flow_params = hs_code sample_trade_flow_params
      \<and> market sample_trade_flow_params = market sample_trade_flow_params
      \<and> year sample_trade_flow_params = year sample_trade_flow_params"
    by simp
  have fresh: "at_check (clock_at 5000) - at_store (clock_at 1000) < cacheTtl default_config"
    by (simp add: clock_at_def default_config_def)
  have stale: "at_check (clock_at 3601200) - at_store (clock_at 1000) \<ge> cacheTtl default_config"
    by (simp add: clock_at_def default_config_def)
  have p: "hs_code sample_trade_flow_params = Some ''210690''"
    "market sample_trade_flow_params = Some ''UAE''" "year sample_trade_flow_params = None"
    by (simp_all add: sample_trade_flow_params_def empty_params_def)
  have d1: "data ?resp1 = toTradeFlowData mockWitsResponse"
    by (simp add: createSuccessResponse_def Let_def)
  have n0: "length (issued new_service) = 0" by (simp add: new_service_def)
  have t: "at_store (clock_at 1000) = 1200" "at_store (clock_at 3601200) = 3601400"
    "at_respond (clock_at 3601200) = 3601401"
    by (simp_all add: clock_at_def)
  from cache_hit_within_ttl_and_expiry [OF first stored same, of "clock_at 5000" sample_upstream]
  have hit: "\<exists>resp2. TradeFlowService_getTradeFlow default_config sample_upstream (clock_at 5000)
                  sample_trade_flow_params warm_service = (Inr resp2, warm_service)
         \<and> data resp2 = toTradeFlowData mockWitsResponse
         \<and> source (metadata resp2) = ''Cache''
         \<and> last_updated (metadata resp2) = toISOString 1200"
    and len: "length (issued warm_service) = 1"
    and slot: "cache warm_service ''210690:UAE:latest'' =
       Some \<lparr>item_data = toTradeFlowData mockWitsResponse, timestamp = toISOString 1200\<rparr>"
    and k1: "getCacheKey ''210690'' ''UAE'' None = ''210690:UAE:latest''"
    using fresh p d1 n0 t by auto
  from cache_hit_within_ttl_and_expiry [OF first stored same, of "clock_at 3601200" sample_upstream]
  have miss: "\<exists>req st2. TradeFlowService_getTradeFlow default_config sample_upstream (clock_at 3601200)
                  sample_trade_flow_params warm_service =
                  (Inr (createSuccessResponse 3601401 (toTradeFlowData mockWitsResponse)
                          (metadata_option ''WITS API'' 0.95)), st2)
         \<and> issued st2 = issued warm_service @ [req]
         \<and> cache st2 ''210690:UAE:latest'' =
             Some \<lparr>item_data = toTradeFlowData mockWitsResponse,
                   timestamp = toISOString 3601400\<rparr>"
    using stale p t by (auto simp: sample_upstream_def)
  have k2: "getCacheKey ''210690'' ''UAE'' (Some 2022) = ''210690:UAE:2022''"
    by (simp add: getCacheKey_def show_int_def show_nat.simps)
  have "cache warm_service =
      (Map.empty)(getCacheKey ''210690'' ''UAE'' None \<mapsto>
        \<lparr>item_data = toTradeFlowData mockWitsResponse, timestamp = toISOString 1200\<rparr>)"
    by (simp add: warm_service_def sample_first_call)
  then have other: "cache warm_service ''210690:UAE:2022'' = None"
    by (simp add: k1)
  show ?thesis using first stored len k1 k2 slot other fresh hit stale miss by blast
qed

section \<open>Error translation and conversion\<close>

lemma responseInterceptor_unreachable:
  "response error = None \<Longrightarrow>
     responseInterceptor error =
       Api (ExternalApiError ''WITS API is unreachable''
              (Some [(''originalError'', JStr (axios_message error))]))"
  by (simp add: responseInterceptor_def)

lemma responseInterceptor_not_found:
  "response error = Some resp \<Longrightarrow> response_status resp = 404 \<Longrightarrow>
     responseInterceptor error =
       Api (ValidationError ''The requested resource was not found in WITS API''
              (Some [(''originalError'', response_data resp)]))"
  by (simp add: responseInterceptor_def Let_def)

lemma responseInterceptor_message:
  assumes "response error = Some resp" and "get_message (response_data resp) = Inr (JStr s)"
    and "s \<noteq> []"
  shows "responseInterceptor error =
     (if response_status resp = 400 then
        Api (ValidationError s (Some [(''originalError'', response_data resp)]))
      else if response_status resp = 404 then
        Api (ValidationError ''The requested resource was not found in WITS API''
               (Some [(''originalError'', response_data resp)]))
      else if response_status resp \<ge> 500 then
        Api (ExternalApiError (''WITS API server error: '' @ s)
               (Some [(''originalError'', response_data resp)]))
      else
        Api (ExternalApiError (''WITS API error: '' @ s)
               (Some [(''originalError'', js_or (response_data resp) (JStr (axios_message error))),
                      (''status'', JNum (response_status resp))])))"
  using assms by (simp add: responseInterceptor_def Let_def throw_new_def js_or_def)

lemma responseInterceptor_no_message:
  assumes "response error = Some resp" and "get_message (response_data resp) = Inr m"
    and "\<not> truthy m"
  shows "responseInterceptor error =
     (if response_status resp = 400 then
        Api (ValidationError ''Invalid request to WITS API''
               (Some [(''originalError'', response_data resp)]))
      else if response_status resp = 404 then
        Api (ValidationError ''The requested resource was not found in WITS API''
               (Some [(''originalError'', response_data resp)]))
      else if response_status resp \<ge> 500 then
        Api (ExternalApiError (''WITS API server error: '' @ show_int (response_status resp))
               (Some [(''originalError'', response_data resp)]))
      else
        Api (ExternalApiError (''WITS API error: '' @ axios_message error)
               (Some [(''originalError'', js_or (response_data resp) (JStr (axios_message error))),
                      (''status'', JNum (response_status resp))])))"
  using assms by (simp add: responseInterceptor_def Let_def throw_new_def js_or_def)

lemma responseInterceptor_example:
  "responseInterceptor
     \<lparr>axios_message = ''Request failed with status code 500'',
      response = Some \<lparr>response_status = 500,
                        response_data = JObj [(''message'', JStr ''x'')]\<rparr>\<rparr>
   = Api (ExternalApiError ''WITS API server error: x''
            (Some [(''originalError'', JObj [(''message'', JStr ''x'')])]))"
  by (simp add: responseInterceptor_def Let_def js_or_def)

text \<open>
  Claim C3. The upstream answers status 500 with the JSON body \<open>null\<close>. The handler
  reads \<open>data.message\<close> before it reaches its \<open>throw\<close>, so what leaves it is the
  runtime's TypeError and not an ExternalApiError, nor any other error of the taxonomy.
  The same happens for status 400 and for the statuses of the default branch; only the
  404 branch, which does not read the body, is unaffected.
\<close>

theorem responseInterceptor_null_body:
  "responseInterceptor
     \<lparr>axios_message = ''Request failed with status code 500'',
      response = Some \<lparr>response_status = 500, response_data = JNull\<rparr>\<rparr>
   = TypeError ''Cannot read properties of null''
   \<and> \<not> isApiError (responseInterceptor
     \<lparr>axios_message = ''Request failed with status code 500'',
      response = Some \<lparr>response_status = 500, response_data = JNull\<rparr>\<rparr>)
   \<and> \<not> isApiError (responseInterceptor
     \<lparr>axios_message = ''Request failed with status code 400'',
      response = Some \<lparr>response_status = 400, response_data = JNull\<rparr>\<rparr>)
   \<and> \<not> isApiError (responseInterceptor
     \<lparr>axios_message = ''Request failed with status code 403'',
      response = Some \<lparr>response_status = 403, response_data = JNull\<rparr>\<rparr>)"
  by (simp add: responseInterceptor_def TypeError_def)

lemma handleError_taxonomy:
  "\<exists>r. handleError now (Api e) = Inr r \<and> r_status r = e_status e
       \<and> r_error_code r = Some (e_error_code e) \<and> r_data r = JNull"
  by (simp add: toResponse_def)

lemma handleError_native:
  "\<exists>r. handleError now (Native e) = Inr r \<and> r_status r = 500
       \<and> r_error_code r = Some INTERNAL_SERVER_ERROR \<and> r_data r = JNull
       \<and> r_message r = err_message e
       \<and> r_details r = Some [(''original_error'',
                               (case err_stack e of None \<Rightarrow> JUndefined | Some s \<Rightarrow> JStr s))]"
  by (simp add: toResponse_def InternalServerError_def)

lemma handleError_value:
  "ToString v = Some s \<Longrightarrow>
   \<exists>r. handleError now (Value v) = Inr r \<and> r_status r = 500
       \<and> r_error_code r = Some INTERNAL_SERVER_ERROR \<and> r_data r = JNull
       \<and> r_details r = Some [(''original_error'', JStr s)]"
  by (simp add: toResponse_def InternalServerError_def)

lemma handleError_boom:
  "\<exists>r. handleError now (Native (new_Error ''boom'' frames)) = Inr r \<and> r_status r = 500
       \<and> r_error_code r = Some INTERNAL_SERVER_ERROR \<and> r_data r = JNull
       \<and> r_details r = Some [(''original_error'', JStr (''Error: boom'' @ frames))]"
  by (simp add: toResponse_def InternalServerError_def new_Error_def)

text \<open>
  Claim C4. The value thrown is an object without a prototype, \<open>Object.create(null)\<close>.
  It is neither an \<open>ApiError\<close> nor an \<open>Error\<close>, so \<open>handleError\<close> evaluates
  \<open>String(error)\<close>, which throws a TypeError: \<open>handleError\<close> itself throws and returns
  no envelope.
\<close>

theorem handleError_bare_object:
  "handleError now (Value (JBare [])) = Inl (TypeError ''Cannot convert object to primitive value'')"
  by simp

end
